theory Spec2Isabelle
  imports Complex_Main "HOL-Library.AList"
begin

section \<open>JavaScript values\<close>

text \<open>
  The values the stores of \<^verbatim>\<open>create-form.ts\<close> hold. A number is \<open>NaN\<close>, an infinity or
  a finite value; both zeros are the one finite value 0. An array and an object carry the
  identity of the heap object they are (the \<open>nat\<close>): \<^verbatim>\<open>===\<close> and \<^verbatim>\<open>!==\<close> compare two
  objects by identity, never by content.

  An object literal is the association list of its own properties, in insertion order:
  \<^verbatim>\<open>{...o, [k]: v}\<close> is \<open>AList.update k v o\<close> (the value is replaced in place when
  \<open>k\<close> is a property already, and appended otherwise), and the read \<^verbatim>\<open>o[k]\<close> is
  \<open>js_get o k\<close>, which is \<open>Undefined\<close> for a missing property. Field names are taken to
  be ordinary property names: properties inherited from \<^verbatim>\<open>Object.prototype\<close> are not part
  of the model.
\<close>

datatype jsnum = NaN | Inf bool | Fin rat

datatype jsval =
    Undefined
  | Null
  | Bool bool
  | Num jsnum
  | Str string
  | Arr nat "jsval list"
  | Obj nat "(string \<times> jsval) list"

type_synonym obj = "(string \<times> jsval) list"

definition js_get :: "obj \<Rightarrow> string \<Rightarrow> jsval" where
  "js_get ob k = (case map_of ob k of None \<Rightarrow> Undefined | Some v \<Rightarrow> v)"

text \<open>\<^verbatim>\<open>Object.keys(o)\<close>.\<close>

definition keys :: "(string \<times> 'v) list \<Rightarrow> string list" where
  "keys ob = map fst ob"

text \<open>\<^verbatim>\<open>!!v\<close>: every object and array is truthy, also an empty one.\<close>

fun truthy :: "jsval \<Rightarrow> bool" where
  "truthy Undefined = False"
| "truthy Null = False"
| "truthy (Bool b) = b"
| "truthy (Num n) = (n \<noteq> NaN \<and> n \<noteq> Fin 0)"
| "truthy (Str s) = (s \<noteq> [])"
| "truthy (Arr r xs) = True"
| "truthy (Obj r ps) = True"

text \<open>\<^verbatim>\<open>a === b\<close> and \<^verbatim>\<open>a !== b\<close>.\<close>

fun strict_eq :: "jsval \<Rightarrow> jsval \<Rightarrow> bool" where
  "strict_eq Undefined Undefined = True"
| "strict_eq Null Null = True"
| "strict_eq (Bool a) (Bool b) = (a = b)"
| "strict_eq (Num a) (Num b) = (a \<noteq> NaN \<and> a = b)"
| "strict_eq (Str a) (Str b) = (a = b)"
| "strict_eq (Arr r xs) (Arr r' ys) = (r = r')"
| "strict_eq (Obj r ps) (Obj r' qs) = (r = r')"
| "strict_eq a b = False"

definition strict_neq :: "jsval \<Rightarrow> jsval \<Rightarrow> bool" where
  "strict_neq a b = (\<not> strict_eq a b)"

section \<open>Configuration and stores\<close>

text \<open>
  What \<^verbatim>\<open>await config.onSubmit(...)\<close> can do: the promise is fulfilled, it is rejected
  (or the callback throws synchronously) with a value, or it never settles.
\<close>

datatype settled = Fulfilled | Rejected jsval | NeverSettles

text \<open>
  \<^verbatim>\<open>FormConfig\<close>. \<open>onError\<close> is optional; called with the thrown value it returns
  (\<open>None\<close>) or throws itself (\<open>Some e\<close>).
\<close>

record config =
  initialValues :: "obj option"
  onSubmit :: "obj option \<Rightarrow> settled"
  onError :: "(jsval \<Rightarrow> jsval option) option"
  useConstraintApi :: "bool option"

text \<open>
  The stores \<^verbatim>\<open>createStores\<close> returns, by their current values. The data store holds
  \<^verbatim>\<open>undefined\<close> (\<open>None\<close>) until a value is set. \<open>next_ref\<close> is the identity the next
  allocated array gets, and \<open>errors_subscribers\<close> counts the live subscriptions to the
  errors store.
\<close>

record stores =
  isSubmitting :: bool
  data :: "obj option"
  errors :: obj
  touched :: "(string \<times> bool) list"
  next_ref :: nat
  errors_subscribers :: nat

text \<open>\<^verbatim>\<open>{...data}\<close>: spreading \<^verbatim>\<open>undefined\<close> gives no property.\<close>

definition spread :: "obj option \<Rightarrow> obj" where
  "spread d = (case d of None \<Rightarrow> [] | Some ob \<Rightarrow> ob)"

section \<open>\<^verbatim>\<open>handleSubmit\<close>\<close>

text \<open>
  What one run of the handler does, in order: the store writes and the calls that leave
  the module.
\<close>

datatype effect =
    Set_isSubmitting bool
  | PreventDefault
  | Update_touched "(string \<times> bool) list"
  | Get_errors
  | ReportValidity
  | Call_onSubmit "obj option"
  | Call_onError jsval

text \<open>
  How the \<^verbatim>\<open>async\<close> function ends: its promise is fulfilled, it is rejected with a
  value (the error reaches the caller), or the function stays suspended at its
  \<^verbatim>\<open>await\<close>.
\<close>

datatype completion = Returned | Threw jsval | Suspended

record run =
  final :: stores
  trace :: "effect list"
  completion :: completion

text \<open>
  \<^verbatim>\<open>Object.keys(t).reduce((acc, key) => ({...acc, [key]: true}), t)\<close>
\<close>

definition all_touched :: "(string \<times> bool) list \<Rightarrow> (string \<times> bool) list" where
  "all_touched t = foldl (\<lambda>acc key. AList.update key True acc) t (keys t)"

text \<open>
  \<^verbatim>\<open>Object.keys(currentErrors).some((key) => !!currentErrors[key])\<close>
\<close>

definition hasErrors :: "obj \<Rightarrow> bool" where
  "hasErrors currentErrors = list_ex (\<lambda>key. truthy (js_get currentErrors key)) (keys currentErrors)"

text \<open>The \<^verbatim>\<open>finally\<close> block, run after the \<^verbatim>\<open>try\<close> and the \<^verbatim>\<open>catch\<close> completed.\<close>

definition finally_block :: "stores \<Rightarrow> effect list \<Rightarrow> completion \<Rightarrow> run" where
  "finally_block s tr c =
     \<lparr>final = s\<lparr>isSubmitting := False\<rparr>, trace = tr @ [Set_isSubmitting False], completion = c\<rparr>"

text \<open>The \<^verbatim>\<open>catch (e)\<close> block.\<close>

definition catch_block :: "config \<Rightarrow> stores \<Rightarrow> effect list \<Rightarrow> jsval \<Rightarrow> run" where
  "catch_block cfg s tr e =
     (case onError cfg of
        None \<Rightarrow> finally_block s tr (Threw e)
      | Some handler \<Rightarrow>
          (case handler e of
             None \<Rightarrow> finally_block s (tr @ [Call_onError e]) Returned
           | Some e' \<Rightarrow> finally_block s (tr @ [Call_onError e]) (Threw e')))"

definition handleSubmit :: "config \<Rightarrow> stores \<Rightarrow> run" where
  "handleSubmit cfg s0 =
     (let s1 = s0\<lparr>isSubmitting := True\<rparr>;
          s2 = s1\<lparr>touched := all_touched (touched s1)\<rparr>;
          tr = [Set_isSubmitting True, PreventDefault, Update_touched (touched s2), Get_errors];
          currentErrors = errors s2
      in if hasErrors currentErrors then
           finally_block s2
             (if useConstraintApi cfg = Some True then tr @ [ReportValidity] else tr) Returned
         else
           (case onSubmit cfg (data s2) of
              Fulfilled \<Rightarrow> finally_block s2 (tr @ [Call_onSubmit (data s2)]) Returned
            | Rejected e \<Rightarrow> catch_block cfg s2 (tr @ [Call_onSubmit (data s2)]) e
            | NeverSettles \<Rightarrow>
                \<lparr>final = s2, trace = tr @ [Call_onSubmit (data s2)], completion = Suspended\<rparr>))"

text \<open>
  A truthy leaf anywhere in a nested value, in the words of the specification: a
  primitive is a leaf, an object or an array is searched through its members.
\<close>

fun spec_truthy_leaf :: "jsval \<Rightarrow> bool" where
  "spec_truthy_leaf (Arr r xs) = list_ex spec_truthy_leaf xs"
| "spec_truthy_leaf (Obj r ps) = list_ex spec_truthy_leaf (map snd ps)"
| "spec_truthy_leaf v = truthy v"

definition spec_errors_truthy_leaf :: "obj \<Rightarrow> bool" where
  "spec_errors_truthy_leaf es = list_ex spec_truthy_leaf (map snd es)"

section \<open>The bound form\<close>

text \<open>
  A form control as the module reads it: \<^verbatim>\<open>nodeName\<close>, \<^verbatim>\<open>name\<close>, \<^verbatim>\<open>type\<close>,
  \<^verbatim>\<open>value\<close> and \<^verbatim>\<open>checked\<close>. The form node is the list of its controls in document
  order (\<^verbatim>\<open>node.elements\<close>) and the listeners registered on it. Every named element
  inside the form is taken to be one of its controls, and every name to be one the
  selector \<^verbatim>\<open>[name=...]\<close> accepts, so that \<^verbatim>\<open>node.querySelectorAll(`[name=${n}]`)\<close>
  is the list of the controls named \<open>n\<close>.
\<close>

record element =
  nodeName :: string
  el_name :: string
  el_type :: string
  el_value :: string
  el_checked :: bool

datatype handler = HandleInput | HandleChange | HandleBlur | HandleSubmit

record form_node =
  elements :: "element list"
  listeners :: "(string \<times> handler) list"

definition isInputElement :: "element \<Rightarrow> bool" where
  "isInputElement el = (nodeName el = ''INPUT'')"

definition isTextAreaElement :: "element \<Rightarrow> bool" where
  "isTextAreaElement el = (nodeName el = ''TEXTAREA'')"

definition querySelectorAll :: "form_node \<Rightarrow> string \<Rightarrow> element list" where
  "querySelectorAll node n = filter (\<lambda>el. el_name el = n) (elements node)"

text \<open>
  \<^verbatim>\<open>el.checked\<close> read on an arbitrary element of a query result: only an
  \<^verbatim>\<open>HTMLInputElement\<close> has the property, on any other element the read is
  \<^verbatim>\<open>undefined\<close>, which is falsy.
\<close>

definition checked_prop :: "element \<Rightarrow> bool" where
  "checked_prop el = (isInputElement el \<and> el_checked el)"

text \<open>\<^verbatim>\<open>type.match(/^(number|range)$/)\<close>\<close>

definition numeric_type :: "string \<Rightarrow> bool" where
  "numeric_type t = (t = ''number'' \<or> t = ''range'')"

text \<open>
  The value a text-like control gives. The unary plus of the language
  (\<^verbatim>\<open>+el.value\<close>, the conversion of a string to a number) is the parameter \<open>num\<close>.
\<close>

definition field_value :: "(string \<Rightarrow> jsnum) \<Rightarrow> element \<Rightarrow> jsval" where
  "field_value num el =
     (if numeric_type (el_type el) then Num (num (el_value el)) else Str (el_value el))"

subsection \<open>\<^verbatim>\<open>setFormFieldsDefaultValues\<close>\<close>

text \<open>
  One iteration of \<^verbatim>\<open>for (const el of node.elements)\<close>, on the stores and the local
  \<^verbatim>\<open>defaultData\<close>. A \<^verbatim>\<open>continue\<close> is the end of the iteration.
\<close>

definition default_step ::
  "(string \<Rightarrow> jsnum) \<Rightarrow> form_node \<Rightarrow> element \<Rightarrow> stores \<times> obj \<Rightarrow> stores \<times> obj" where
  "default_step num node el acc =
     (let s = fst acc; defaultData = snd acc in
      if (\<not> isInputElement el \<and> \<not> isTextAreaElement el) \<or> el_name el = [] then (s, defaultData)
      else
        let s1 = s\<lparr>touched := AList.update (el_name el) False (touched s)\<rparr> in
        if isInputElement el \<and> el_type el = ''checkbox'' then
          (if js_get defaultData (el_name el) = Undefined then
             let checkboxes = querySelectorAll node (el_name el) in
             if length checkboxes = 1 then
               (s1, AList.update (el_name el) (Bool (el_checked el)) defaultData)
             else
               (s1\<lparr>next_ref := Suc (next_ref s1)\<rparr>,
                AList.update (el_name el)
                  (Arr (next_ref s1) (if el_checked el then [Str (el_value el)] else []))
                  defaultData)
           else
             (case js_get defaultData (el_name el) of
                Arr r xs \<Rightarrow>
                  if el_checked el then
                    (s1, AList.update (el_name el) (Arr r (xs @ [Str (el_value el)])) defaultData)
                  else (s1, defaultData)
              | _ \<Rightarrow> (s1, defaultData)))
        else if isInputElement el \<and> el_type el = ''radio'' \<and> el_checked el then
          (s1, AList.update (el_name el) (Str (el_value el)) defaultData)
        else
          (s1, AList.update (el_name el) (field_value num el) defaultData))"

definition default_loop ::
  "(string \<Rightarrow> jsnum) \<Rightarrow> form_node \<Rightarrow> element list \<Rightarrow> stores \<times> obj \<Rightarrow> stores \<times> obj" where
  "default_loop num node els acc = foldl (\<lambda>a el. default_step num node el a) acc els"

definition setFormFieldsDefaultValues ::
  "(string \<Rightarrow> jsnum) \<Rightarrow> form_node \<Rightarrow> stores \<Rightarrow> stores" where
  "setFormFieldsDefaultValues num node s =
     (let r = default_loop num node (elements node) (s, []) in
      (fst r)\<lparr>data := Some (snd r)\<rparr>)"

subsection \<open>The event handlers\<close>

definition setCheckboxValues :: "form_node \<Rightarrow> element \<Rightarrow> stores \<Rightarrow> stores" where
  "setCheckboxValues node target s =
     (let checkboxes = querySelectorAll node (el_name target) in
      if length checkboxes = 1 then
        s\<lparr>data := Some (AList.update (el_name target) (Bool (el_checked target)) (spread (data s)))\<rparr>
      else
        s\<lparr>data := Some (AList.update (el_name target)
               (Arr (next_ref s) (map (\<lambda>el. Str (el_value el)) (filter checked_prop checkboxes)))
               (spread (data s))),
          next_ref := Suc (next_ref s)\<rparr>)"

definition setRadioValues :: "form_node \<Rightarrow> element \<Rightarrow> stores \<Rightarrow> stores" where
  "setRadioValues node target s =
     (let radios = querySelectorAll node (el_name target);
          checkedRadio = find (\<lambda>el. isInputElement el \<and> el_checked el) radios
      in s\<lparr>data := Some (AList.update (el_name target)
             (case checkedRadio of None \<Rightarrow> Undefined | Some el \<Rightarrow> Str (el_value el))
             (spread (data s)))\<rparr>)"


definition handleChange :: "form_node \<Rightarrow> element \<Rightarrow> stores \<Rightarrow> stores" where
  "handleChange node target s =
     (if \<not> isInputElement target then s
      else if el_name target = [] then s
      else
        let s1 = s\<lparr>touched := AList.update (el_name target) True (touched s)\<rparr>;
            s2 = (if el_type target = ''checkbox'' then setCheckboxValues node target s1 else s1)
        in if el_type target = ''radio'' then setRadioValues node target s2 else s2)"

definition handleBlur :: "element \<Rightarrow> stores \<Rightarrow> stores" where
  "handleBlur target s =
     (if \<not> isInputElement target \<and> \<not> isTextAreaElement target then s
      else if el_name target = [] then s
      else s\<lparr>touched := AList.update (el_name target) True (touched s)\<rparr>)"

subsection \<open>\<^verbatim>\<open>form\<close> and \<^verbatim>\<open>destroy\<close>\<close>

text \<open>
  \<^verbatim>\<open>addEventListener\<close> registers a listener once; \<^verbatim>\<open>removeEventListener\<close> removes the
  listener registered under exactly that event type, and does nothing when there is none.
\<close>

definition addEventListener :: "string \<Rightarrow> handler \<Rightarrow> form_node \<Rightarrow> form_node" where
  "addEventListener ty h node =
     (if (ty, h) \<in> set (listeners node) then node
      else node\<lparr>listeners := listeners node @ [(ty, h)]\<rparr>)"

definition removeEventListener :: "string \<Rightarrow> handler \<Rightarrow> form_node \<Rightarrow> form_node" where
  "removeEventListener ty h node = node\<lparr>listeners := removeAll (ty, h) (listeners node)\<rparr>"

text \<open>
  What \<^verbatim>\<open>form(node)\<close> keeps for its \<^verbatim>\<open>destroy\<close>: whether \<^verbatim>\<open>unsubscribeErrors\<close> is a
  function (a subscription was made) or \<^verbatim>\<open>undefined\<close>. The subscriber itself, which
  copies each error message into the control's custom validity, writes neither a store
  nor a listener and is left out.
\<close>

record binding =
  unsubscribeErrors :: bool

definition form ::
  "config \<Rightarrow> (string \<Rightarrow> jsnum) \<Rightarrow> form_node \<Rightarrow> stores \<Rightarrow> form_node \<times> stores \<times> binding" where
  "form cfg num node s =
     (let s1 = setFormFieldsDefaultValues num node s;
          node1 = addEventListener ''input'' HandleInput node;
          node2 = addEventListener ''change'' HandleChange node1;
          node3 = addEventListener ''focusout'' HandleBlur node2;
          node4 = addEventListener ''submit'' HandleSubmit node3;
          subscribed = (useConstraintApi cfg = Some True);
          s2 = (if subscribed then s1\<lparr>errors_subscribers := Suc (errors_subscribers s1)\<rparr> else s1)
      in (node4, s2, \<lparr>unsubscribeErrors = subscribed\<rparr>))"

definition destroy :: "binding \<Rightarrow> form_node \<times> stores \<Rightarrow> form_node \<times> stores" where
  "destroy b ns =
     (let node1 = removeEventListener ''input'' HandleInput (fst ns);
          node2 = removeEventListener ''change'' HandleChange node1;
          node3 = removeEventListener ''foucsout'' HandleBlur node2;
          node4 = removeEventListener ''submit'' HandleSubmit node3;
          s = snd ns
      in (node4,
          if unsubscribeErrors b then s\<lparr>errors_subscribers := errors_subscribers s - 1\<rparr> else s))"

section \<open>\<^verbatim>\<open>newDataSet\<close> and \<^verbatim>\<open>createForm\<close>\<close>

text \<open>Reading a property of \<^verbatim>\<open>undefined\<close> throws a \<^verbatim>\<open>TypeError\<close>.\<close>

datatype error = TypeError

text \<open>\<^verbatim>\<open>!current[key]\<close>\<close>

definition untouched :: "(string \<times> bool) list \<Rightarrow> string \<Rightarrow> bool" where
  "untouched current key = (case map_of current key of None \<Rightarrow> True | Some b \<Rightarrow> \<not> b)"

text \<open>
  The callback of the \<^verbatim>\<open>reduce\<close>: \<^verbatim>\<open>values[key] !== config.initialValues[key]\<close>
  throws when \<^verbatim>\<open>config.initialValues\<close> is \<^verbatim>\<open>undefined\<close>, and the exception ends the
  \<^verbatim>\<open>reduce\<close>.
\<close>

definition reconcile_step ::
  "config \<Rightarrow> obj \<Rightarrow> error + (string \<times> bool) list \<Rightarrow> string \<Rightarrow> error + (string \<times> bool) list" where
  "reconcile_step cfg values acc key =
     (case acc of
        Inl e \<Rightarrow> Inl e
      | Inr a \<Rightarrow>
          (case initialValues cfg of
             None \<Rightarrow> Inl TypeError
           | Some iv \<Rightarrow> Inr (AList.update key (strict_neq (js_get values key) (js_get iv key)) a)))"

definition reconcile ::
  "config \<Rightarrow> obj \<Rightarrow> (string \<times> bool) list \<Rightarrow> error + (string \<times> bool) list" where
  "reconcile cfg values current =
     (let untouchedKeys = filter (untouched current) (keys current)
      in foldl (reconcile_step cfg values) (Inr current) untouchedKeys)"

text \<open>
  \<^verbatim>\<open>touched.update\<close> writes the store only when its callback returned;
  \<^verbatim>\<open>data.set(values)\<close> is reached only after that.
\<close>

definition newDataSet :: "config \<Rightarrow> obj \<Rightarrow> stores \<Rightarrow> error + stores" where
  "newDataSet cfg values s =
     (case reconcile cfg values (touched s) of
        Inl e \<Rightarrow> Inl e
      | Inr t \<Rightarrow> Inr ((s\<lparr>touched := t\<rparr>)\<lparr>data := Some values\<rparr>))"

text \<open>\<^verbatim>\<open>config.useConstraintApi ??= false\<close>, the first statement of \<^verbatim>\<open>createForm\<close>.\<close>

definition createForm :: "config \<Rightarrow> config" where
  "createForm cfg =
     cfg\<lparr>useConstraintApi :=
            Some (case useConstraintApi cfg of None \<Rightarrow> False | Some b \<Rightarrow> b)\<rparr>"

section \<open>Predicates of the proofs\<close>

text \<open>
  A control that the loop of \<^verbatim>\<open>setFormFieldsDefaultValues\<close> does not skip: an input or
  a textarea with a non-empty name.
\<close>

definition named_field :: "element \<Rightarrow> bool" where
  "named_field el = ((isInputElement el \<or> isTextAreaElement el) \<and> el_name el \<noteq> [])"

definition is_checkbox :: "element \<Rightarrow> bool" where
  "is_checkbox el = (isInputElement el \<and> el_type el = ''checkbox'')"



section \<open>Example forms\<close>

text \<open>
  The forms of the repository's tests: \<^verbatim>\<open>createInputElement\<close>, the login form (a
  fieldset, an email and a password input, an unnamed submit input), and stores as they
  are after the login form was bound.
\<close>

definition createInputElement :: "string \<Rightarrow> string \<Rightarrow> string \<Rightarrow> bool \<Rightarrow> element" where
  "createInputElement n t v c =
     \<lparr>nodeName = ''INPUT'', el_name = n, el_type = t, el_value = v, el_checked = c\<rparr>"

definition fieldset :: "string \<Rightarrow> element" where
  "fieldset n =
     \<lparr>nodeName = ''FIELDSET'', el_name = n, el_type = ''fieldset'', el_value = [], el_checked = False\<rparr>"

definition login_form :: form_node where
  "login_form =
     \<lparr>elements = [fieldset ''account'',
                  createInputElement ''email'' ''email'' [] False,
                  createInputElement ''password'' ''password'' [] False,
                  createInputElement [] ''submit'' [] False],
      listeners = []\<rparr>"

definition blank_stores :: stores where
  "blank_stores =
     \<lparr>isSubmitting = False, data = None, errors = [], touched = [], next_ref = 0,
      errors_subscribers = 0\<rparr>"

definition login_stores :: "obj \<Rightarrow> (string \<times> bool) list \<Rightarrow> stores" where
  "login_stores es t =
     \<lparr>isSubmitting = False,
      data = Some [(''email'', Str []), (''password'', Str [])],
      errors = es, touched = t, next_ref = 0, errors_subscribers = 0\<rparr>"

definition plain_config :: config where
  "plain_config =
     \<lparr>initialValues = None, onSubmit = (\<lambda>d. Fulfilled), onError = None, useConstraintApi = None\<rparr>"

text \<open>
  A conversion for the examples: it agrees with the unary plus of the language on the
  strings the examples use (the empty string, \<^verbatim>\<open>42\<close> and \<^verbatim>\<open>abc\<close>).
\<close>

definition sample_num :: "string \<Rightarrow> jsnum" where
  "sample_num v = (if v = [] then Fin 0 else if v = ''42'' then Fin 42 else NaN)"

text \<open>
  A form with a lone checkbox and a group of two, a hidden input that shares its name with a
  checkbox, and a form with numeric and text inputs.
\<close>

definition checkbox_form :: "bool \<Rightarrow> bool \<Rightarrow> form_node" where
  "checkbox_form tech films =
     \<lparr>elements = [createInputElement ''showPassword'' ''checkbox'' ''on'' True,
                  createInputElement ''preferences'' ''checkbox'' ''technology'' tech,
                  createInputElement ''preferences'' ''checkbox'' ''films'' films],
      listeners = []\<rparr>"

definition hidden_checkbox_form :: form_node where
  "hidden_checkbox_form =
     \<lparr>elements = [createInputElement ''newsletter'' ''hidden'' ''0'' False,
                  createInputElement ''newsletter'' ''checkbox'' ''1'' True],
      listeners = []\<rparr>"

definition numbers_form :: form_node where
  "numbers_form =
     \<lparr>elements = [createInputElement ''age'' ''number'' ''42'' False,
                  createInputElement ''height'' ''range'' ''abc'' False,
                  createInputElement ''bio'' ''text'' ''abc'' False],
      listeners = []\<rparr>"

lemmas example_defs =
  createInputElement_def fieldset_def login_form_def blank_stores_def login_stores_def
  plain_config_def sample_num_def checkbox_form_def hidden_checkbox_form_def numbers_form_def

lemmas code_defs =
  setFormFieldsDefaultValues_def default_loop_def default_step_def Let_def js_get_def
  querySelectorAll_def isInputElement_def isTextAreaElement_def field_value_def numeric_type_def
  named_field_def is_checkbox_def checked_prop_def keys_def spread_def

section \<open>Association lists\<close>

lemma foldl_update_map_of:
  "map_of (foldl (\<lambda>acc key. AList.update key (f key) acc) t ks) k =
     (if k \<in> set ks then Some (f k) else map_of t k)"
  by (induction ks arbitrary: t) (simp_all add: update_conv')

lemma foldl_update_keys:
  "set ks \<subseteq> set (map fst t) \<Longrightarrow>
   map fst (foldl (\<lambda>acc key. AList.update key (f key) acc) t ks) = map fst t"
proof (induction ks arbitrary: t)
  case Nil
  then show ?case by simp
next
  case (Cons a ks)
  from Cons.prems have "a \<in> set (map fst t)" by simp
  then have k: "map fst (AList.update a (f a) t) = map fst t"
    by (simp add: update_keys)
  with Cons.prems have "set ks \<subseteq> set (map fst (AList.update a (f a) t))" by simp
  from Cons.IH[OF this] k show ?case by simp
qed

lemma map_of_in_keys: "map_of t k = Some v \<Longrightarrow> k \<in> set (keys t)"
proof -
  assume "map_of t k = Some v"
  then have "(k, v) \<in> set t" by (rule map_of_SomeD)
  then show ?thesis by (force simp: keys_def)
qed

section \<open>Submitting\<close>

lemma keys_all_touched: "keys (all_touched t) = keys t"
  by (simp add: all_touched_def keys_def foldl_update_keys)

lemma map_of_all_touched:
  "map_of (all_touched t) k = (if k \<in> set (keys t) then Some True else None)"
  by (auto simp: all_touched_def foldl_update_map_of keys_def map_of_eq_None_iff)

text \<open>The check of \<^verbatim>\<open>handleSubmit\<close> looks at the top-level properties only.\<close>

lemma hasErrors_iff: "hasErrors es \<longleftrightarrow> (\<exists>k v. map_of es k = Some v \<and> truthy v)"
proof
  assume "hasErrors es"
  then obtain k where k: "k \<in> set (map fst es)" and t: "truthy (js_get es k)"
    by (auto simp: hasErrors_def keys_def list_ex_iff)
  from k obtain v where "map_of es k = Some v"
    by (cases "map_of es k") (auto simp: map_of_eq_None_iff)
  with t show "\<exists>k v. map_of es k = Some v \<and> truthy v"
    by (auto simp: js_get_def)
next
  assume "\<exists>k v. map_of es k = Some v \<and> truthy v"
  then obtain k v where m: "map_of es k = Some v" and t: "truthy v" by blast
  from m have "k \<in> set (keys es)" by (rule map_of_in_keys)
  moreover from m t have "truthy (js_get es k)" by (simp add: js_get_def)
  ultimately show "hasErrors es"
    unfolding hasErrors_def list_ex_iff by blast
qed

lemma spec_truthy_leaf_truthy: "spec_truthy_leaf v \<Longrightarrow> truthy v"
  by (cases v) simp_all

lemma spec_leaf_hasErrors:
  assumes "distinct (keys es)" and "spec_errors_truthy_leaf es"
  shows "hasErrors es"
proof -
  from assms(2) obtain k v where kv: "(k, v) \<in> set es" and l: "spec_truthy_leaf v"
    by (auto simp: spec_errors_truthy_leaf_def list_ex_iff)
  from assms(1) kv have "map_of es k = Some v"
    by (simp add: keys_def)
  with l show ?thesis
    unfolding hasErrors_iff using spec_truthy_leaf_truthy by blast
qed

lemma trace_handleSubmit_prefix:
  "\<exists>rest. trace (handleSubmit cfg s) =
      [Set_isSubmitting True, PreventDefault, Update_touched (all_touched (touched s)), Get_errors]
      @ rest"
  by (simp add: handleSubmit_def Let_def finally_block_def catch_block_def
      split: settled.splits option.splits)

lemma onSubmit_called_iff:
  "(\<exists>d. Call_onSubmit d \<in> set (trace (handleSubmit cfg s))) \<longleftrightarrow> \<not> hasErrors (errors s)"
  by (auto simp add: handleSubmit_def Let_def finally_block_def catch_block_def
      split: settled.splits option.splits)

lemma touched_final_handleSubmit:
  "touched (final (handleSubmit cfg s)) = all_touched (touched s)"
  by (simp add: handleSubmit_def Let_def finally_block_def catch_block_def
      split: settled.splits option.splits)

text \<open>
  Claim C1, as the specification states it: the submit callback is invoked if and only if
  the errors object has no truthy leaf anywhere in its nested structure. The code does not
  do that: with the errors \<^verbatim>\<open>{account: {email: ''}}\<close>, which have no truthy leaf, the
  nested object is itself truthy and the callback is not called.
\<close>

theorem submit_blocked_without_truthy_leaf:
  "\<not> spec_errors_truthy_leaf [(''account'', Obj 0 [(''email'', Str [])])]
   \<and> trace (handleSubmit plain_config
        (login_stores [(''account'', Obj 0 [(''email'', Str [])])]
           [(''email'', False), (''password'', False)])) =
       [Set_isSubmitting True, PreventDefault,
        Update_touched [(''email'', True), (''password'', True)], Get_errors,
        Set_isSubmitting False]"
  by (simp add: spec_errors_truthy_leaf_def handleSubmit_def plain_config_def login_stores_def
      Let_def hasErrors_def keys_def js_get_def all_touched_def finally_block_def)

text \<open>
  Claim C1, amended: on every submit event the submit callback is invoked if and only if
  no top-level property of the errors object is truthy (a nested object or an array is
  truthy whatever its leaves are); so a truthy leaf anywhere in the errors always keeps
  the callback from being invoked; and in every case every touched entry is set to true
  before the errors are read.
\<close>

theorem submit_callback_gate:
  "((\<exists>d. Call_onSubmit d \<in> set (trace (handleSubmit cfg s))) \<longleftrightarrow>
      \<not> (\<exists>k v. map_of (errors s) k = Some v \<and> truthy v))
   \<and> (distinct (keys (errors s)) \<and> spec_errors_truthy_leaf (errors s) \<longrightarrow>
        (\<forall>d. Call_onSubmit d \<notin> set (trace (handleSubmit cfg s))))
   \<and> (\<exists>rest. trace (handleSubmit cfg s) =
        [Set_isSubmitting True, PreventDefault,
         Update_touched (touched (final (handleSubmit cfg s))), Get_errors] @ rest)
   \<and> keys (touched (final (handleSubmit cfg s))) = keys (touched s)
   \<and> (\<forall>k \<in> set (keys (touched s)). map_of (touched (final (handleSubmit cfg s))) k = Some True)"
proof -
  have called: "(\<exists>d. Call_onSubmit d \<in> set (trace (handleSubmit cfg s))) \<longleftrightarrow>
      \<not> (\<exists>k v. map_of (errors s) k = Some v \<and> truthy v)"
    using onSubmit_called_iff[of cfg s] by (simp only: hasErrors_iff)
  have blocked: "distinct (keys (errors s)) \<and> spec_errors_truthy_leaf (errors s) \<longrightarrow>
        (\<forall>d. Call_onSubmit d \<notin> set (trace (handleSubmit cfg s)))"
    using onSubmit_called_iff[of cfg s] spec_leaf_hasErrors[of "errors s"] by blast
  have order: "\<exists>rest. trace (handleSubmit cfg s) =
        [Set_isSubmitting True, PreventDefault,
         Update_touched (touched (final (handleSubmit cfg s))), Get_errors] @ rest"
    using trace_handleSubmit_prefix[of cfg s] by (simp only: touched_final_handleSubmit)
  have same_keys: "keys (touched (final (handleSubmit cfg s))) = keys (touched s)"
    by (simp only: touched_final_handleSubmit keys_all_touched)
  have all_true: "\<forall>k \<in> set (keys (touched s)).
      map_of (touched (final (handleSubmit cfg s))) k = Some True"
    by (simp add: touched_final_handleSubmit map_of_all_touched)
  from called blocked order same_keys all_true show ?thesis by blast
qed

theorem submit_callback_gate_witness:
  "distinct (keys [(''account'', Obj 0 [(''email'', Str ''Not email'')])])
   \<and> spec_errors_truthy_leaf [(''account'', Obj 0 [(''email'', Str ''Not email'')])]
   \<and> (\<forall>d. Call_onSubmit d \<notin> set (trace (handleSubmit plain_config
        (login_stores [(''account'', Obj 0 [(''email'', Str ''Not email'')])]
           [(''email'', False), (''password'', False)]))))
   \<and> map_of (touched (final (handleSubmit plain_config
        (login_stores [(''account'', Obj 0 [(''email'', Str ''Not email'')])]
           [(''email'', False), (''password'', False)])))) ''password'' = Some True"
  using submit_callback_gate[of plain_config
      "login_stores [(''account'', Obj 0 [(''email'', Str ''Not email'')])]
         [(''email'', False), (''password'', False)]"]
  by (simp add: login_stores_def keys_def spec_errors_truthy_leaf_def)



section \<open>Events that only touch a field\<close>

text \<open>
  Claim C9: a focus-lost event on a named input or textarea sets the touched entry of
  that field to true and leaves the data record unchanged; so does a change event on a
  named input whose type is neither \<^verbatim>\<open>checkbox\<close> nor \<^verbatim>\<open>radio\<close>.
\<close>

theorem blur_and_change_touch_only:
  "((isInputElement target \<or> isTextAreaElement target) \<and> el_name target \<noteq> [] \<longrightarrow>
      data (handleBlur target s) = data s
      \<and> map_of (touched (handleBlur target s)) (el_name target) = Some True)
   \<and> (isInputElement target \<and> el_name target \<noteq> []
        \<and> el_type target \<noteq> ''checkbox'' \<and> el_type target \<noteq> ''radio'' \<longrightarrow>
      data (handleChange node target s) = data s
      \<and> map_of (touched (handleChange node target s)) (el_name target) = Some True)"
  by (auto simp add: handleBlur_def handleChange_def Let_def update_conv')

theorem blur_and_change_touch_only_witness:
  "isInputElement (createInputElement ''email'' ''email'' ''a@b.com'' False)
   \<and> data (handleBlur (createInputElement ''email'' ''email'' ''a@b.com'' False)
        (login_stores [] [(''email'', False), (''password'', False)])) =
       Some [(''email'', Str []), (''password'', Str [])]
   \<and> touched (handleBlur (createInputElement ''email'' ''email'' ''a@b.com'' False)
        (login_stores [] [(''email'', False), (''password'', False)])) =
       [(''email'', True), (''password'', False)]
   \<and> data (handleChange login_form (createInputElement ''email'' ''email'' ''a@b.com'' False)
        (login_stores [] [(''email'', False), (''password'', False)])) =
       Some [(''email'', Str []), (''password'', Str [])]
   \<and> touched (handleChange login_form (createInputElement ''email'' ''email'' ''a@b.com'' False)
        (login_stores [] [(''email'', False), (''password'', False)])) =
       [(''email'', True), (''password'', False)]"
  using blur_and_change_touch_only[of "createInputElement ''email'' ''email'' ''a@b.com'' False"
      "login_stores [] [(''email'', False), (''password'', False)]" login_form]
  by (simp add: createInputElement_def isInputElement_def login_stores_def handleBlur_def
      handleChange_def Let_def)

section \<open>Replacing the data\<close>

lemma untouched_key_iff:
  "k \<in> set (keys t) \<Longrightarrow> untouched t k \<longleftrightarrow> map_of t k = Some False"
  by (cases "map_of t k") (auto simp: untouched_def keys_def map_of_eq_None_iff)

lemma reconcile_fold_Inl:
  "foldl (reconcile_step cfg values) (Inl e) ks = Inl e"
  by (induction ks) (simp_all add: reconcile_step_def)

lemma reconcile_fold_None:
  "initialValues cfg = None \<Longrightarrow> ks \<noteq> [] \<Longrightarrow>
   foldl (reconcile_step cfg values) (Inr t) ks = Inl TypeError"
  by (cases ks) (simp_all add: reconcile_step_def reconcile_fold_Inl)

lemma reconcile_fold_Some:
  "initialValues cfg = Some iv \<Longrightarrow>
   foldl (reconcile_step cfg values) (Inr t) ks =
     Inr (foldl (\<lambda>acc key. AList.update key (strict_neq (js_get values key) (js_get iv key)) acc) t ks)"
  by (induction ks arbitrary: t) (simp_all add: reconcile_step_def)

lemma reconcile_Some:
  "initialValues cfg = Some iv \<Longrightarrow>
   reconcile cfg values t =
     Inr (foldl (\<lambda>acc key. AList.update key (strict_neq (js_get values key) (js_get iv key)) acc) t
            (filter (untouched t) (keys t)))"
  by (simp add: reconcile_def reconcile_fold_Some)

lemma reconcile_all_touched:
  "filter (untouched t) (keys t) = [] \<Longrightarrow> reconcile cfg values t = Inr t"
  by (simp add: reconcile_def)

lemma reconcile_None:
  "initialValues cfg = None \<Longrightarrow> filter (untouched t) (keys t) \<noteq> [] \<Longrightarrow>
   reconcile cfg values t = Inl TypeError"
  by (simp add: reconcile_def reconcile_fold_None)

lemma some_untouched_iff:
  "filter (untouched t) (keys t) \<noteq> [] \<longleftrightarrow> (\<exists>k. map_of t k = Some False)"
proof
  assume "filter (untouched t) (keys t) \<noteq> []"
  then obtain k where "k \<in> set (keys t)" "untouched t k"
    by (auto simp: filter_empty_conv)
  then show "\<exists>k. map_of t k = Some False"
    using untouched_key_iff by blast
next
  assume "\<exists>k. map_of t k = Some False"
  then obtain k where m: "map_of t k = Some False" by blast
  then have "k \<in> set (keys t)" by (rule map_of_in_keys)
  with m show "filter (untouched t) (keys t) \<noteq> []"
    by (auto simp: filter_empty_conv untouched_key_iff)
qed

text \<open>
  With initial values in the configuration, \<^verbatim>\<open>data.set\<close> completes: it reconciles
  the touched entries and then sets the data. Every untouched field becomes touched
  exactly when its new value differs (\<^verbatim>\<open>!==\<close>) from its initial value, and every
  touched field keeps its entry.
\<close>

theorem reconcile_with_initialValues:
  "initialValues cfg = Some iv \<longrightarrow>
     (\<exists>s'. newDataSet cfg values s = Inr s'
        \<and> data s' = Some values
        \<and> keys (touched s') = keys (touched s)
        \<and> (\<forall>k. map_of (touched s) k = Some False \<longrightarrow>
              map_of (touched s') k = Some (strict_neq (js_get values k) (js_get iv k)))
        \<and> (\<forall>k. map_of (touched s) k = Some True \<longrightarrow> map_of (touched s') k = Some True))"
proof
  assume iv: "initialValues cfg = Some iv"
  let ?f = "\<lambda>key. strict_neq (js_get values key) (js_get iv key)"
  let ?ks = "filter (untouched (touched s)) (keys (touched s))"
  let ?t = "foldl (\<lambda>acc key. AList.update key (?f key) acc) (touched s) ?ks"
  let ?s' = "(s\<lparr>touched := ?t\<rparr>)\<lparr>data := Some values\<rparr>"
  have r: "newDataSet cfg values s = Inr ?s'"
    by (simp add: newDataSet_def reconcile_Some[OF iv])
  have k: "keys (touched ?s') = keys (touched s)"
    by (simp add: keys_def foldl_update_keys)
  have u: "map_of (touched ?s') k = Some (?f k)" if "map_of (touched s) k = Some False" for k
  proof -
    from that have "k \<in> set (keys (touched s))" by (rule map_of_in_keys)
    with that have "k \<in> set ?ks" by (simp add: untouched_key_iff)
    then show ?thesis by (simp add: foldl_update_map_of)
  qed
  have t: "map_of (touched ?s') k = Some True" if "map_of (touched s) k = Some True" for k
  proof -
    from that have "\<not> untouched (touched s) k" by (simp add: untouched_def)
    then have "k \<notin> set ?ks" by simp
    then have "map_of ?t k = map_of (touched s) k"
      by (simp only: foldl_update_map_of if_False)
    with that show ?thesis by simp
  qed
  from r k u t show "\<exists>s'. newDataSet cfg values s = Inr s'
        \<and> data s' = Some values
        \<and> keys (touched s') = keys (touched s)
        \<and> (\<forall>k. map_of (touched s) k = Some False \<longrightarrow>
              map_of (touched s') k = Some (strict_neq (js_get values k) (js_get iv k)))
        \<and> (\<forall>k. map_of (touched s) k = Some True \<longrightarrow> map_of (touched s') k = Some True)"
    by (intro exI[of _ ?s']) simp
qed

theorem reconcile_with_initialValues_example:
  "initialValues (plain_config\<lparr>initialValues := Some [(''email'', Str []), (''password'', Str [])]\<rparr>)
     = Some [(''email'', Str []), (''password'', Str [])]
   \<and> newDataSet (plain_config\<lparr>initialValues := Some [(''email'', Str []), (''password'', Str [])]\<rparr>)
       [(''email'', Str ''a@b.com''), (''password'', Str [])]
       (login_stores [] [(''email'', False), (''password'', False), (''bio'', True)]) =
     Inr ((login_stores [] [(''email'', True), (''password'', False), (''bio'', True)])
            \<lparr>data := Some [(''email'', Str ''a@b.com''), (''password'', Str [])]\<rparr>)"
  using reconcile_with_initialValues[of
      "plain_config\<lparr>initialValues := Some [(''email'', Str []), (''password'', Str [])]\<rparr>"
      "[(''email'', Str []), (''password'', Str [])]"
      "[(''email'', Str ''a@b.com''), (''password'', Str [])]"
      "login_stores [] [(''email'', False), (''password'', False), (''bio'', True)]"]
  by (simp add: newDataSet_def reconcile_def reconcile_step_def untouched_def keys_def
      login_stores_def plain_config_def js_get_def strict_neq_def)

text \<open>
  Claim C7 says that \<^verbatim>\<open>data.set\<close> reconciles the touched entries and sets the data. The
  code does so only with initial values in the configuration. The tests create every form
  without them: after such a form is bound, every touched entry is false, and
  \<^verbatim>\<open>data.set\<close> throws on \<^verbatim>\<open>config.initialValues[key]\<close> before it has written the
  touched store or the data store.
\<close>

theorem data_set_throws_after_binding:
  "initialValues (createForm plain_config) = None
   \<and> touched (fst (snd (form (createForm plain_config) sample_num login_form blank_stores))) =
       [(''email'', False), (''password'', False)]
   \<and> newDataSet (createForm plain_config) [(''email'', Str ''a@b.com''), (''password'', Str [])]
       (fst (snd (form (createForm plain_config) sample_num login_form blank_stores))) =
     Inl TypeError"
  by (simp add: example_defs code_defs form_def createForm_def addEventListener_def
      newDataSet_def reconcile_def reconcile_step_def untouched_def)

text \<open>
  Claim C10: without \<^verbatim>\<open>initialValues\<close> in the configuration, \<^verbatim>\<open>data.set\<close> throws as soon
  as one touched entry is false, since it reads a property of \<^verbatim>\<open>config.initialValues\<close>;
  it completes normally exactly when \<^verbatim>\<open>initialValues\<close> was supplied or no touched entry
  is false.
\<close>

theorem data_set_without_initialValues_throws:
  "(initialValues cfg = None \<and> (\<exists>k. map_of (touched s) k = Some False) \<longrightarrow>
      newDataSet cfg values s = Inl TypeError)
   \<and> ((\<exists>s'. newDataSet cfg values s = Inr s') \<longleftrightarrow>
        (initialValues cfg \<noteq> None \<or> \<not> (\<exists>k. map_of (touched s) k = Some False)))"
proof -
  have throws: "newDataSet cfg values s = Inl TypeError"
    if "initialValues cfg = None" and "\<exists>k. map_of (touched s) k = Some False"
    using that by (simp add: newDataSet_def reconcile_None some_untouched_iff)
  have returns: "\<exists>s'. newDataSet cfg values s = Inr s'"
    if "initialValues cfg \<noteq> None \<or> \<not> (\<exists>k. map_of (touched s) k = Some False)"
  proof (cases "initialValues cfg")
    case None
    with that have "filter (untouched (touched s)) (keys (touched s)) = []"
      using some_untouched_iff[of "touched s"] by blast
    then show ?thesis by (simp add: newDataSet_def reconcile_all_touched)
  next
    case (Some iv)
    then show ?thesis by (simp add: newDataSet_def reconcile_Some)
  qed
  from throws returns show ?thesis
    by (metis Inl_Inr_False)
qed

theorem data_set_without_initialValues_throws_witness:
  "initialValues plain_config = None
   \<and> map_of (touched (login_stores [] [(''email'', True), (''password'', False)])) ''password''
       = Some False
   \<and> newDataSet plain_config [(''email'', Str ''a@b.com''), (''password'', Str [])]
       (login_stores [] [(''email'', True), (''password'', False)]) = Inl TypeError"
  using data_set_without_initialValues_throws[of plain_config
      "login_stores [] [(''email'', True), (''password'', False)]"
      "[(''email'', Str ''a@b.com''), (''password'', Str [])]"]
  by (simp add: plain_config_def login_stores_def)

section \<open>The loop of \<^verbatim>\<open>setFormFieldsDefaultValues\<close>\<close>

























section \<open>Binding\<close>




section \<open>Text and numeric fields\<close>



section \<open>Checkboxes\<close>







section \<open>Dotted names\<close>

text \<open>
  Claim C3 says that the value of a control named \<^verbatim>\<open>profile.picture\<close> is stored under
  the nested path \<^verbatim>\<open>{ profile: { picture: ... } }\<close>. The code stores it under the flat
  key \<^verbatim>\<open>profile.picture\<close>, and the data record has no property \<^verbatim>\<open>profile\<close>.
\<close>

theorem dotted_name_stored_flat:
  "data (fst (snd (form plain_config sample_num
       \<lparr>elements = [createInputElement ''profile.picture'' ''file'' [] False], listeners = []\<rparr>
       blank_stores))) = Some [(''profile.picture'', Str [])]
   \<and> js_get [(''profile.picture'', Str [])] ''profile'' = Undefined"
  by (simp add: example_defs code_defs form_def)

section \<open>Tearing the binding down\<close>

text \<open>
  On a form that had no listener before it was bound, one listener is left after
  \<^verbatim>\<open>destroy\<close>, whatever the form and the configuration are.
\<close>

lemma focusout_listener_survives:
  "listeners node = [] \<Longrightarrow>
   listeners (fst (destroy b (fst (form cfg num node s), s'))) = [(''focusout'', HandleBlur)]"
  by (simp add: form_def destroy_def addEventListener_def removeEventListener_def Let_def)

text \<open>
  Claim C2 says that \<^verbatim>\<open>destroy()\<close> removes the four listeners that binding attached
  and cancels the subscription to the errors. The code removes three of them:
  \<^verbatim>\<open>removeEventListener('foucsout', handleBlur)\<close> names an event type that no listener
  was registered under, so the \<^verbatim>\<open>focusout\<close> listener stays on the form.
\<close>

theorem destroy_leaves_focusout_listener:
  "listeners (fst (form (createForm (plain_config\<lparr>useConstraintApi := Some True\<rparr>))
        sample_num login_form blank_stores)) =
     [(''input'', HandleInput), (''change'', HandleChange), (''focusout'', HandleBlur),
      (''submit'', HandleSubmit)]
   \<and> errors_subscribers (fst (snd (form (createForm (plain_config\<lparr>useConstraintApi := Some True\<rparr>))
        sample_num login_form blank_stores))) = 1
   \<and> (case form (createForm (plain_config\<lparr>useConstraintApi := Some True\<rparr>))
          sample_num login_form blank_stores of
        (node, s, b) \<Rightarrow>
          listeners (fst (destroy b (node, s))) = [(''focusout'', HandleBlur)]
          \<and> errors_subscribers (snd (destroy b (node, s))) = 0)"
  by (simp add: form_def destroy_def createForm_def addEventListener_def removeEventListener_def
      example_defs code_defs)

end
